theory Spec2Isabelle
  imports Complex_Main
begin

section \<open>Values of the graphics toolkit\<close>

text \<open>
  The scene item \<open>Edge\<close> (src/view/scene_items/edge.cpp) computes with the toolkit's
  value classes \<open>QPointF\<close>, \<open>QVector2D\<close>, \<open>QLineF\<close> and \<open>QRectF\<close>. Their coordinates are
  \<open>double\<close> (\<open>float\<close> in \<open>QVector2D\<close>); here every coordinate is a \<open>real\<close> and the casts
  between \<open>double\<close> and \<open>float\<close> are the identity. Rounding, overflow and NaN are
  therefore not part of this development.
\<close>

datatype QPointF = QPointF (xp: real) (yp: real)

instantiation QPointF :: "{plus, minus}"
begin

definition plus_QPointF :: "QPointF \<Rightarrow> QPointF \<Rightarrow> QPointF" where
  "plus_QPointF a b = QPointF (xp a + xp b) (yp a + yp b)"

definition minus_QPointF :: "QPointF \<Rightarrow> QPointF \<Rightarrow> QPointF" where
  "minus_QPointF a b = QPointF (xp a - xp b) (yp a - yp b)"

instance ..

end

text \<open>\<open>QPointF * qreal\<close> and \<open>qreal * QPointF\<close>.\<close>

definition QPointF_mul :: "QPointF \<Rightarrow> real \<Rightarrow> QPointF" where
  "QPointF_mul p c = QPointF (xp p * c) (yp p * c)"

definition mul_QPointF :: "real \<Rightarrow> QPointF \<Rightarrow> QPointF" where
  "mul_QPointF c p = QPointF (c * xp p) (c * yp p)"

text \<open>The Euclidean distance of two points (the length of the line between them).\<close>

definition distance :: "QPointF \<Rightarrow> QPointF \<Rightarrow> real" where
  "distance a b = sqrt ((xp b - xp a)\<^sup>2 + (yp b - yp a)\<^sup>2)"

datatype QVector2D = QVector2D (vx: real) (vy: real)

text \<open>The constructor \<open>QVector2D(QPointF)\<close> and \<open>QVector2D::toPointF()\<close>.\<close>

definition QVector2D_of :: "QPointF \<Rightarrow> QVector2D" where
  "QVector2D_of p = QVector2D (xp p) (yp p)"

definition toPointF :: "QVector2D \<Rightarrow> QPointF" where
  "toPointF v = QPointF (vx v) (vy v)"

definition vlength :: "QVector2D \<Rightarrow> real" where
  "vlength v = sqrt ((vx v)\<^sup>2 + (vy v)\<^sup>2)"

text \<open>
  \<open>QVector2D::normalize()\<close> in exact arithmetic: the null vector is left as it is (the
  toolkit returns before it divides), every other vector is scaled to length one.
\<close>

definition normalize :: "QVector2D \<Rightarrow> QVector2D" where
  "normalize v =
     (if vlength v = 0 then v else QVector2D (vx v / vlength v) (vy v / vlength v))"

text \<open>\<open>QVector2D * float\<close>.\<close>

definition QVector2D_mul :: "QVector2D \<Rightarrow> real \<Rightarrow> QVector2D" where
  "QVector2D_mul v c = QVector2D (vx v * c) (vy v * c)"

datatype QLineF = QLineF (p1: QPointF) (p2: QPointF)

datatype QRectF = QRectF (left: real) (top: real) (width: real) (height: real)

definition qDegreesToRadians :: "real \<Rightarrow> real" where
  "qDegreesToRadians degrees = degrees * (pi / 180)"

section \<open>The state of an edge\<close>

datatype ArrowMode = Single | Double | Hidden

record Style =
  arrowMode :: ArrowMode
  arrowSize :: real
  edgeWidth :: real
  dashedLine :: bool

record EdgeModel =
  reversed :: bool
  style :: Style
  edgeText :: string

text \<open>
  What \<open>Edge\<close> reads of a \<open>Node\<close>: \<open>pos()\<close>, \<open>cornerRadius()\<close> and
  \<open>sceneBoundingRect()\<close>. The edge never writes to its nodes.
\<close>

record Node =
  pos :: QPointF
  cornerRadius :: real
  nodeSceneBoundingRect :: QRectF

text \<open>An element of the pair that \<open>Node::getNearestEdgePoints\<close> returns.\<close>

record EdgePoint =
  location :: QPointF
  isCorner :: bool

text \<open>
  An \<open>EdgeTextEdit\<close> (the label and the dummy label): its text, its visibility, whether
  it has been added to a scene (\<open>scene()\<close> is not null), whether it holds the input focus,
  its position, its own bounding rectangle and whether its parent item is the edge.
\<close>

record EdgeTextEdit =
  labelText :: string
  isVisible :: bool
  scene :: bool
  hasFocus :: bool
  labelPos :: QPointF
  boundingRect :: QRectF
  parentIsEdge :: bool

text \<open>A \<open>QGraphicsLineItem\<close>: its line and whether it is shown.\<close>

record QGraphicsLineItem =
  line :: QLineF
  shown :: bool

text \<open>
  A \<open>QPropertyAnimation\<close> of a dot's scale. \<open>stop()\<close> and \<open>start()\<close> are the only calls the
  edge makes after \<open>initDots\<close>; \<open>starts\<close> counts the calls of \<open>start()\<close>, so that a restart
  can be observed.
\<close>

record QPropertyAnimation =
  running :: bool
  currentTime :: nat
  starts :: nat

definition stop :: "QPropertyAnimation \<Rightarrow> QPropertyAnimation" where
  "stop a = a\<lparr>running := False\<rparr>"

definition start :: "QPropertyAnimation \<Rightarrow> QPropertyAnimation" where
  "start a = a\<lparr>running := True, currentTime := 0, starts := Suc (starts a)\<rparr>"

text \<open>
  The members of \<open>Edge\<close> that the geometry, the label and the dots read or write. The two
  nodes are held by pointer in the source; the record holds what the pointers lead to.
  The label objects and the dot objects exist exactly when \<open>m_enableLabel\<close> and
  \<open>m_enableAnimations\<close> are set; the code below reads and writes their fields under
  these flags only. Pens, colours, shadow effects, z values and the transform origin are
  left out.
\<close>

record Edge =
  m_edgeModel :: EdgeModel
  m_sourceNode :: Node
  m_targetNode :: Node
  m_enableAnimations :: bool
  m_enableLabel :: bool
  m_sourceDotPos :: QPointF
  m_targetDotPos :: QPointF
  m_label :: EdgeTextEdit
  m_dummyLabel :: EdgeTextEdit
  m_line :: QGraphicsLineItem
  m_arrowheadBeginLeft :: QGraphicsLineItem
  m_arrowheadBeginRight :: QGraphicsLineItem
  m_arrowheadEndLeft :: QGraphicsLineItem
  m_arrowheadEndRight :: QGraphicsLineItem
  m_sourceDotSizeAnimation :: QPropertyAnimation
  m_targetDotSizeAnimation :: QPropertyAnimation
  m_previousRelativeSourcePos :: QPointF
  m_previousRelativeTargetPos :: QPointF

text \<open>
  Functions that \<open>Edge\<close> calls and whose bodies are not in the sources at hand: of the
  toolkit, \<open>QLineF::angle()\<close> (degrees), \<open>QRectF::intersects\<close> and
  \<open>QGraphicsItem::sceneBoundingRect()\<close> of a label; of this program,
  \<open>Node::getNearestEdgePoints\<close>. They are parameters of everything below.
\<close>

record Externals =
  angle :: "QLineF \<Rightarrow> real"
  intersects :: "QRectF \<Rightarrow> QRectF \<Rightarrow> bool"
  sceneBoundingRect :: "EdgeTextEdit \<Rightarrow> QRectF"
  getNearestEdgePoints :: "Node \<Rightarrow> Node \<Rightarrow> EdgePoint \<times> EdgePoint"

section \<open>Arrowheads\<close>

definition show_line :: "QLineF \<Rightarrow> QGraphicsLineItem" where
  "show_line l = \<lparr>line = l, shown = True\<rparr>"

definition hide :: "QGraphicsLineItem \<Rightarrow> QGraphicsLineItem" where
  "hide i = i\<lparr>shown := False\<rparr>"

definition updateSingleArrowhead :: "Externals \<Rightarrow> Edge \<Rightarrow> Edge" where
  "updateSingleArrowhead X s =
     (let reversedEdge = reversed (m_edgeModel s);
          l = line (m_line s);
          pointBegin = (if reversedEdge then p1 l else p2 l);
          arrowOpening = 150;
          angleBegin = (if reversedEdge then - angle X l + 180 else - angle X l);
          angleLeft = qDegreesToRadians (angleBegin + arrowOpening);
          lineBeginLeft = QLineF pointBegin
            (pointBegin + QPointF_mul (QPointF (cos angleLeft) (sin angleLeft))
               (arrowSize (style (m_edgeModel s))));
          angleRight = qDegreesToRadians (angleBegin - arrowOpening);
          lineBeginRight = QLineF pointBegin
            (pointBegin + QPointF_mul (QPointF (cos angleRight) (sin angleRight))
               (arrowSize (style (m_edgeModel s))))
      in s\<lparr>m_arrowheadBeginLeft := show_line lineBeginLeft,
            m_arrowheadBeginRight := show_line lineBeginRight,
            m_arrowheadEndLeft := hide (m_arrowheadEndLeft s),
            m_arrowheadEndRight := hide (m_arrowheadEndRight s)\<rparr>)"

definition updateDoubleArrowhead :: "Externals \<Rightarrow> Edge \<Rightarrow> Edge" where
  "updateDoubleArrowhead X s =
     (let arrowOpening = 150;
          reversedEdge = reversed (m_edgeModel s);
          l = line (m_line s);
          pointBegin = (if reversedEdge then p1 l else p2 l);
          angleBegin = (if reversedEdge then - angle X l + 180 else - angle X l);
          angleBeginLeft = qDegreesToRadians (angleBegin + arrowOpening);
          lineBeginLeft = QLineF pointBegin
            (pointBegin + QPointF_mul (QPointF (cos angleBeginLeft) (sin angleBeginLeft))
               (arrowSize (style (m_edgeModel s))));
          angleBeginRight = qDegreesToRadians (angleBegin - arrowOpening);
          lineBeginRight = QLineF pointBegin
            (pointBegin + QPointF_mul (QPointF (cos angleBeginRight) (sin angleBeginRight))
               (arrowSize (style (m_edgeModel s))));
          pointEnd = (if reversedEdge then p2 l else p1 l);
          angleEnd = (if reversedEdge then - angle X l else - angle X l + 180);
          angleEndLeft = qDegreesToRadians (angleEnd + arrowOpening);
          lineEndLeft = QLineF pointEnd
            (pointEnd + QPointF_mul (QPointF (cos angleEndLeft) (sin angleEndLeft))
               (arrowSize (style (m_edgeModel s))));
          angleEndRight = qDegreesToRadians (angleEnd - arrowOpening);
          lineEndRight = QLineF pointEnd
            (pointEnd + QPointF_mul (QPointF (cos angleEndRight) (sin angleEndRight))
               (arrowSize (style (m_edgeModel s))))
      in s\<lparr>m_arrowheadBeginLeft := show_line lineBeginLeft,
            m_arrowheadBeginRight := show_line lineBeginRight,
            m_arrowheadEndLeft := show_line lineEndLeft,
            m_arrowheadEndRight := show_line lineEndRight\<rparr>)"

definition updateHiddenArrowhead :: "Edge \<Rightarrow> Edge" where
  "updateHiddenArrowhead s =
     s\<lparr>m_arrowheadBeginLeft := hide (m_arrowheadBeginLeft s),
       m_arrowheadBeginRight := hide (m_arrowheadBeginRight s),
       m_arrowheadEndLeft := hide (m_arrowheadEndLeft s),
       m_arrowheadEndRight := hide (m_arrowheadEndRight s)\<rparr>"

definition updateArrowhead :: "Externals \<Rightarrow> Edge \<Rightarrow> Edge" where
  "updateArrowhead X s =
     (case arrowMode (style (m_edgeModel s)) of
        Single \<Rightarrow> updateSingleArrowhead X s
      | Double \<Rightarrow> updateDoubleArrowhead X s
      | Hidden \<Rightarrow> updateHiddenArrowhead s)"

section \<open>Label visibility\<close>

datatype VisibilityChangeReason = AvailableSpaceChanged | Explicit | Focused | Timeout

text \<open>The three local constants that \<open>Edge::setLabelVisible\<close> computes on entry.\<close>

definition isEnoughSpaceForLabel :: "Externals \<Rightarrow> Edge \<Rightarrow> bool" where
  "isEnoughSpaceForLabel X s =
     (scene (m_label s)
      \<and> \<not> intersects X (sceneBoundingRect X (m_label s)) (nodeSceneBoundingRect (m_sourceNode s))
      \<and> \<not> intersects X (sceneBoundingRect X (m_label s)) (nodeSceneBoundingRect (m_targetNode s)))"

definition dummyLabelTextIsShoterThanLabelText :: "Edge \<Rightarrow> bool" where
  "dummyLabelTextIsShoterThanLabelText s =
     (length (labelText (m_dummyLabel s)) < length (labelText (m_label s)))"

definition isEnoughSpaceForDummyLabel :: "Externals \<Rightarrow> Edge \<Rightarrow> bool" where
  "isEnoughSpaceForDummyLabel X s =
     (scene (m_dummyLabel s)
      \<and> \<not> intersects X (sceneBoundingRect X (m_dummyLabel s)) (nodeSceneBoundingRect (m_sourceNode s))
      \<and> \<not> intersects X (sceneBoundingRect X (m_dummyLabel s)) (nodeSceneBoundingRect (m_targetNode s)))"

definition setVisible :: "bool \<Rightarrow> EdgeTextEdit \<Rightarrow> EdgeTextEdit" where
  "setVisible v e = e\<lparr>isVisible := v\<rparr>"

definition setLabelVisible :: "Externals \<Rightarrow> bool \<Rightarrow> VisibilityChangeReason \<Rightarrow> Edge \<Rightarrow> Edge" where
  "setLabelVisible X visible vcr s =
     (if m_enableLabel s then
        (case vcr of
           AvailableSpaceChanged \<Rightarrow>
             (let isLabelVisible = (isEnoughSpaceForLabel X s \<and> labelText (m_label s) \<noteq> [])
              in s\<lparr>m_label := setVisible isLabelVisible (m_label s),
                    m_dummyLabel := setVisible
                      (\<not> isLabelVisible \<and> isEnoughSpaceForDummyLabel X s
                         \<and> dummyLabelTextIsShoterThanLabelText s) (m_dummyLabel s)\<rparr>)
         | Explicit \<Rightarrow>
             s\<lparr>m_label := setVisible visible (m_label s),
               m_dummyLabel := setVisible visible (m_dummyLabel s)\<rparr>
         | Focused \<Rightarrow>
             (if visible then
                s\<lparr>m_label := (setVisible True (m_label s))\<lparr>parentIsEdge := False\<rparr>,
                  m_dummyLabel := setVisible False (m_dummyLabel s)\<rparr>
              else s)
         | Timeout \<Rightarrow>
             (if \<not> visible then
                (if (labelText (m_label s) = []
                     \<or> (labelText (m_label s) \<noteq> [] \<and> \<not> isEnoughSpaceForLabel X s))
                    \<and> \<not> hasFocus (m_label s)
                 then s\<lparr>m_label := setVisible False (m_label s),
                        m_dummyLabel := setVisible
                          (isEnoughSpaceForDummyLabel X s
                             \<and> dummyLabelTextIsShoterThanLabelText s) (m_dummyLabel s)\<rparr>
                 else s)
              else s))
      else s)"

text \<open>
  \<open>LabelUpdateReason\<close> is declared in edge.hpp; edge.cpp names \<open>EdgeGeometryChanged\<close>
  only, \<open>Default\<close> stands for every other value.
\<close>

datatype LabelUpdateReason = Default | EdgeGeometryChanged

definition updateLabel :: "Externals \<Rightarrow> LabelUpdateReason \<Rightarrow> Edge \<Rightarrow> Edge" where
  "updateLabel X lur s =
     (if m_enableLabel s then
        (let l = line (m_line s);
             s1 = s\<lparr>m_label := (m_label s)\<lparr>labelPos :=
                      QPointF_mul (p1 l + p2 l) 0.5
                      - QPointF_mul (QPointF (width (boundingRect (m_label s)))
                                             (height (boundingRect (m_label s)))) 0.5\<rparr>\<rparr>;
             s2 = s1\<lparr>m_dummyLabel := (m_dummyLabel s1)\<lparr>labelPos :=
                      QPointF_mul (p1 l + p2 l) 0.5
                      - QPointF_mul (QPointF (width (boundingRect (m_dummyLabel s1)))
                                             (height (boundingRect (m_dummyLabel s1)))) 0.5\<rparr>\<rparr>
         in if lur = EdgeGeometryChanged
            then setLabelVisible X (isVisible (m_label s2)) AvailableSpaceChanged s2
            else s2)
      else s)"

section \<open>Connection dots\<close>

definition updateDots :: "Edge \<Rightarrow> Edge" where
  "updateDots s =
     (if m_enableAnimations s then
        (let l = line (m_line s);
             newRelativeSourcePos = p1 l - pos (m_sourceNode s);
             s1 = (if m_previousRelativeSourcePos s \<noteq> newRelativeSourcePos
                   then s\<lparr>m_previousRelativeSourcePos := newRelativeSourcePos,
                          m_sourceDotSizeAnimation := start (stop (m_sourceDotSizeAnimation s))\<rparr>
                   else s);
             s2 = s1\<lparr>m_sourceDotPos := p1 l\<rparr>;
             newRelativeTargetPos = p2 l - pos (m_targetNode s2);
             s3 = (if m_previousRelativeTargetPos s2 \<noteq> newRelativeTargetPos
                   then s2\<lparr>m_previousRelativeTargetPos := newRelativeTargetPos,
                           m_targetDotSizeAnimation := start (stop (m_targetDotSizeAnimation s2))\<rparr>
                   else s2)
         in s3\<lparr>m_targetDotPos := p2 l\<rparr>)
      else s)"

section \<open>The line between the two nodes\<close>

definition updateLine :: "Externals \<Rightarrow> Edge \<Rightarrow> Edge" where
  "updateLine X s =
     (let nearestPoints = getNearestEdgePoints X (m_sourceNode s) (m_targetNode s);
          p1 = location (fst nearestPoints) + pos (m_sourceNode s);
          direction1 = normalize (QVector2D_of (pos (m_sourceNode s) - p1));
          p2 = location (snd nearestPoints) + pos (m_targetNode s);
          direction2 = normalize (QVector2D_of (pos (m_targetNode s) - p2));
          widthScale = 0.5;
          cornerRadiusScale = 0.3;
          s1 = s\<lparr>m_line := (m_line s)\<lparr>line := QLineF
                 (p1 + (if isCorner (fst nearestPoints)
                        then mul_QPointF cornerRadiusScale
                               (toPointF (QVector2D_mul direction1 (cornerRadius (m_sourceNode s))))
                        else QPointF 0 0))
                 (p2 + (if isCorner (snd nearestPoints)
                        then mul_QPointF cornerRadiusScale
                               (toPointF (QVector2D_mul direction2 (cornerRadius (m_targetNode s))))
                        else QPointF 0 0)
                  - QPointF_mul
                      (toPointF (QVector2D_mul direction2 (edgeWidth (style (m_edgeModel s)))))
                      widthScale)\<rparr>\<rparr>
      in updateArrowhead X (updateLabel X EdgeGeometryChanged (updateDots s1)))"

section \<open>Notions of the specification\<close>

text \<open>
  A wing as the specification describes it: the endpoint plus a vector of length \<open>len\<close>
  at an angle given in degrees.
\<close>

definition wing :: "QPointF \<Rightarrow> real \<Rightarrow> real \<Rightarrow> QPointF" where
  "wing point degrees len =
     point + QPointF (len * cos (degrees * pi / 180)) (len * sin (degrees * pi / 180))"

text \<open>
  The begin end of a single arrowhead in the specification's words: the end of the
  segment nearer the source node, and the other end when the edge is reversed.
\<close>

definition claimedSingleBegin :: "Edge \<Rightarrow> QPointF" where
  "claimedSingleBegin s =
     (let l = line (m_line s);
          p1IsNearer = (distance (pos (m_sourceNode s)) (p1 l) \<le> distance (pos (m_sourceNode s)) (p2 l));
          nearerSource = (if p1IsNearer then p1 l else p2 l);
          otherEnd = (if p1IsNearer then p2 l else p1 l)
      in if reversed (m_edgeModel s) then otherEnd else nearerSource)"

text \<open>
  The three states of the label in the specification, read off the two visibility flags;
  the two flags both set is none of them.
\<close>

datatype LabelVisibilityState = StateHidden | StateVisible | StateDummyVisible

definition labelVisibilityState :: "Edge \<Rightarrow> LabelVisibilityState option" where
  "labelVisibilityState s =
     (if isVisible (m_label s) then
        (if isVisible (m_dummyLabel s) then None else Some StateVisible)
      else
        (if isVisible (m_dummyLabel s) then Some StateDummyVisible else Some StateHidden))"

definition bothVisible :: "Edge \<Rightarrow> bool" where
  "bothVisible s = (isVisible (m_label s) \<and> isVisible (m_dummyLabel s))"




text \<open>
  The outcome of the timeout as the specification words it: hidden under the stated
  condition, otherwise the dummy label if it is eligible, in all other cases visible.
\<close>

definition claimedTimeout :: "Externals \<Rightarrow> Edge \<Rightarrow> LabelVisibilityState" where
  "claimedTimeout X s =
     (if (labelText (m_label s) = []
          \<or> (labelText (m_label s) \<noteq> [] \<and> \<not> isEnoughSpaceForLabel X s))
         \<and> \<not> hasFocus (m_label s)
      then StateHidden
      else if isEnoughSpaceForDummyLabel X s \<and> dummyLabelTextIsShoterThanLabelText s
      then StateDummyVisible
      else StateVisible)"

text \<open>The anchors of \<open>updateLine\<close> in scene coordinates and their direction vectors.\<close>

definition sourceAnchor :: "Externals \<Rightarrow> Edge \<Rightarrow> QPointF" where
  "sourceAnchor X s =
     location (fst (getNearestEdgePoints X (m_sourceNode s) (m_targetNode s))) + pos (m_sourceNode s)"

definition targetAnchor :: "Externals \<Rightarrow> Edge \<Rightarrow> QPointF" where
  "targetAnchor X s =
     location (snd (getNearestEdgePoints X (m_sourceNode s) (m_targetNode s))) + pos (m_targetNode s)"

definition sourceDirection :: "Externals \<Rightarrow> Edge \<Rightarrow> QVector2D" where
  "sourceDirection X s = normalize (QVector2D_of (pos (m_sourceNode s) - sourceAnchor X s))"

definition targetDirection :: "Externals \<Rightarrow> Edge \<Rightarrow> QVector2D" where
  "targetDirection X s = normalize (QVector2D_of (pos (m_targetNode s) - targetAnchor X s))"








section \<open>An example edge\<close>

text \<open>
  Two nodes at \<open>(0, 0)\<close> and \<open>(100, 0)\<close>, each twenty wide and high, corner radius zero, edge
  width two, a single arrowhead, not reversed. The nearest edge points are the middles of
  the facing sides; every line of the example is horizontal and points to the right, where
  \<open>QLineF::angle()\<close> is zero.
\<close>

definition exampleExternals :: Externals where
  "exampleExternals =
     \<lparr>angle = (\<lambda>l. 0),
      intersects = (\<lambda>a b. left a < left b + width b \<and> left b < left a + width a
                         \<and> top a < top b + height b \<and> top b < top a + height a),
      sceneBoundingRect = (\<lambda>e. QRectF (xp (labelPos e)) (yp (labelPos e))
                                       (width (boundingRect e)) (height (boundingRect e))),
      getNearestEdgePoints = (\<lambda>a b. (\<lparr>location = QPointF 10 0, isCorner = False\<rparr>,
                                       \<lparr>location = QPointF (- 10) 0, isCorner = False\<rparr>))\<rparr>"

definition hiddenItem :: QGraphicsLineItem where
  "hiddenItem = \<lparr>line = QLineF (QPointF 0 0) (QPointF 0 0), shown = False\<rparr>"

definition idleAnimation :: QPropertyAnimation where
  "idleAnimation = \<lparr>running = False, currentTime = 0, starts = 0\<rparr>"

definition exampleEdge :: Edge where
  "exampleEdge =
     \<lparr>m_edgeModel = \<lparr>reversed = False,
                      style = \<lparr>arrowMode = Single, arrowSize = 10, edgeWidth = 2, dashedLine = False\<rparr>,
                      edgeText = ''hello''\<rparr>,
      m_sourceNode = \<lparr>pos = QPointF 0 0, cornerRadius = 0,
                       nodeSceneBoundingRect = QRectF (- 10) (- 10) 20 20\<rparr>,
      m_targetNode = \<lparr>pos = QPointF 100 0, cornerRadius = 0,
                       nodeSceneBoundingRect = QRectF 90 (- 10) 20 20\<rparr>,
      m_enableAnimations = True,
      m_enableLabel = True,
      m_sourceDotPos = QPointF 0 0,
      m_targetDotPos = QPointF 0 0,
      m_label = \<lparr>labelText = ''hello'', isVisible = False, scene = True, hasFocus = False,
                  labelPos = QPointF 0 0, boundingRect = QRectF 0 0 40 10, parentIsEdge = True\<rparr>,
      m_dummyLabel = \<lparr>labelText = ''...'', isVisible = False, scene = True, hasFocus = False,
                  labelPos = QPointF 0 0, boundingRect = QRectF 0 0 20 10, parentIsEdge = True\<rparr>,
      m_line = \<lparr>line = QLineF (QPointF 0 0) (QPointF 0 0), shown = True\<rparr>,
      m_arrowheadBeginLeft = hiddenItem,
      m_arrowheadBeginRight = hiddenItem,
      m_arrowheadEndLeft = hiddenItem,
      m_arrowheadEndRight = hiddenItem,
      m_sourceDotSizeAnimation = idleAnimation,
      m_targetDotSizeAnimation = idleAnimation,
      m_previousRelativeSourcePos = QPointF 0 0,
      m_previousRelativeTargetPos = QPointF 0 0\<rparr>"

text \<open>The example edge after its geometry has been computed.\<close>

definition exampleDrawn :: Edge where
  "exampleDrawn = updateLine exampleExternals exampleEdge"

text \<open>
  The same edge with the target node at \<open>(60, 0)\<close>: the label, forty wide, no longer fits
  between the nodes, the dummy label, twenty wide, does.
\<close>

definition crampedEdge :: Edge where
  "crampedEdge =
     exampleEdge\<lparr>m_targetNode := \<lparr>pos = QPointF 60 0, cornerRadius = 0,
                                     nodeSceneBoundingRect = QRectF 50 (- 10) 20 20\<rparr>\<rparr>"

definition crampedDrawn :: Edge where
  "crampedDrawn = updateLine exampleExternals crampedEdge"

text \<open>The cramped edge after the pointer has entered it: the label is shown.\<close>

definition crampedHovered :: Edge where
  "crampedHovered = setLabelVisible exampleExternals True Focused crampedDrawn"

section \<open>An example with corners\<close>




section \<open>The serializer\<close>

text \<open>
  src/editor/serializer.cpp writes the nodes of a mind map into a DOM document and reads
  them back. The document is modelled as a tree. In the toolkit a \<open>QDomElement\<close> is a
  handle to a node of the document, so that a child appended to an element that is
  already in the tree is in the tree; the model builds each element with the children
  and attributes the code gives it.
\<close>

datatype QDomNode =
    QDomElement (tagName: string) (attributeList: "(string \<times> string) list") (childNodes: "QDomNode list")
  | QDomText (nodeValue: string)



text \<open>A document with its document element, if it has one.\<close>

datatype QDomDocument = QDomDocument (documentElement: "QDomNode option")

definition createElement :: "string \<Rightarrow> QDomNode" where
  "createElement name = QDomElement name [] []"

definition createTextNode :: "string \<Rightarrow> QDomNode" where
  "createTextNode v = QDomText v"

primrec putAttribute :: "string \<Rightarrow> string \<Rightarrow> (string \<times> string) list \<Rightarrow> (string \<times> string) list" where
  "putAttribute name v [] = [(name, v)]"
| "putAttribute name v (p # ps) =
     (if fst p = name then (name, v) # ps else p # putAttribute name v ps)"

text \<open>\<open>setAttribute\<close> replaces the value of an attribute the element has, or adds one.\<close>

fun setAttribute :: "string \<Rightarrow> string \<Rightarrow> QDomNode \<Rightarrow> QDomNode" where
  "setAttribute name v (QDomElement n a c) = QDomElement n (putAttribute name v a) c"
| "setAttribute name v (QDomText t) = QDomText t"

fun appendChild :: "QDomNode \<Rightarrow> QDomNode \<Rightarrow> QDomNode" where
  "appendChild (QDomElement n a c) child = QDomElement n a (c @ [child])"
| "appendChild (QDomText t) child = QDomText t"


subsection \<open>Integers as attribute values\<close>

text \<open>The range of \<open>int\<close>.\<close>

definition INT_MIN :: int where "INT_MIN = - 2147483648"

definition INT_MAX :: int where "INT_MAX = 2147483647"

definition inIntRange :: "int \<Rightarrow> bool" where
  "inIntRange i = (INT_MIN \<le> i \<and> i \<le> INT_MAX)"

text \<open>
  \<open>static_cast<int>\<close> of a \<open>double\<close> drops the fraction; the behaviour is undefined when the
  result is not an \<open>int\<close>, which is \<open>None\<close> here.
\<close>

definition trunc :: "real \<Rightarrow> int" where
  "trunc x = (if 0 \<le> x then \<lfloor>x\<rfloor> else \<lceil>x\<rceil>)"

definition static_cast_int :: "real \<Rightarrow> int option" where
  "static_cast_int x = (if inIntRange (trunc x) then Some (trunc x) else None)"

text \<open>
  \<open>setAttribute(name, int)\<close> stores \<open>QString::number\<close> of the value: the decimal digits,
  after a minus sign for a negative value.
\<close>

definition digitChar :: "nat \<Rightarrow> char" where
  "digitChar d = char_of (48 + d)"

fun digits :: "nat \<Rightarrow> string" where
  "digits n = (if n < 10 then [digitChar n] else digits (n div 10) @ [digitChar (n mod 10)])"

declare digits.simps [simp del]

definition number :: "int \<Rightarrow> string" where
  "number i = (if i < 0 then CHR ''-'' # digits (nat (- i)) else digits (nat i))"




subsection \<open>Nodes, graph and mind map data\<close>

text \<open>
  What the serializer reads and writes of a node (class \<open>NodeBase\<close>): \<open>index()\<close>,
  \<open>location()\<close> and \<open>text()\<close>.
\<close>

record NodeBase =
  nodeIndex :: int
  nodeLocation :: QPointF
  nodeText :: string

text \<open>
  The classes \<open>Graph\<close> and \<open>NodeBase\<close> are not in the sources at hand. The serializer
  iterates over a graph, which yields pairs whose second component is a node, adds nodes
  to the graph of a newly made \<open>MindMapData\<close>, and makes new nodes. These four are
  parameters; \<open>'g\<close> is the type of graphs.
\<close>

record 'g GraphClass =
  newGraph :: 'g
  addNode :: "NodeBase \<Rightarrow> 'g \<Rightarrow> 'g"
  graphEntries :: "'g \<Rightarrow> (int \<times> NodeBase) list"
  newNodeBase :: NodeBase

record 'g MindMapData =
  version :: string
  graph :: 'g

text \<open>
  The constants of \<open>Serializer::DataKeywords\<close> and \<open>Config::APPLICATION_VERSION\<close> are
  declared outside the sources at hand; they are parameters.
\<close>

record Keywords =
  Header_DESIGN :: string
  Header_APPLICATION_VERSION :: string
  Graph_NODE :: string
  Node_INDEX :: string
  Node_TEXT :: string
  Node_X :: string
  Node_Y :: string
  Config_APPLICATION_VERSION :: string

definition SCALE :: real where "SCALE = 1000"

subsection \<open>Writing\<close>

text \<open>
  One round of the loop of \<open>writeNodes\<close>: the element of a node, with its three
  attributes and its text child, appended to the root.
\<close>

definition writeNode :: "Keywords \<Rightarrow> NodeBase \<Rightarrow> QDomNode \<Rightarrow> QDomNode option" where
  "writeNode K node rootElement =
     (case static_cast_int (xp (nodeLocation node) * SCALE) of
        None \<Rightarrow> None
      | Some x \<Rightarrow>
          (case static_cast_int (yp (nodeLocation node) * SCALE) of
             None \<Rightarrow> None
           | Some y \<Rightarrow>
               (let nodeElement = createElement (Graph_NODE K);
                    nodeElement = setAttribute (Node_INDEX K) (number (nodeIndex node)) nodeElement;
                    nodeElement = setAttribute (Node_X K) (number x) nodeElement;
                    nodeElement = setAttribute (Node_Y K) (number y) nodeElement;
                    textElement = createElement (Node_TEXT K);
                    textNode = createTextNode (nodeText node);
                    textElement = appendChild textElement textNode;
                    nodeElement = appendChild nodeElement textElement
                in Some (appendChild rootElement nodeElement))))"

primrec writeNodes :: "Keywords \<Rightarrow> (int \<times> NodeBase) list \<Rightarrow> QDomNode \<Rightarrow> QDomNode option" where
  "writeNodes K [] rootElement = Some rootElement"
| "writeNodes K (nodeIter # rest) rootElement =
     (case writeNode K (snd nodeIter) rootElement of
        None \<Rightarrow> None
      | Some rootElement' \<Rightarrow> writeNodes K rest rootElement')"

definition toXml :: "Keywords \<Rightarrow> 'g GraphClass \<Rightarrow> 'g MindMapData \<Rightarrow> QDomDocument option" where
  "toXml K G m_mindMapData =
     (let rootElement = createElement (Header_DESIGN K);
          rootElement = setAttribute (Header_APPLICATION_VERSION K) (Config_APPLICATION_VERSION K) rootElement
      in map_option (\<lambda>r. QDomDocument (Some r))
           (writeNodes K (graphEntries G (graph m_mindMapData)) rootElement))"

subsection \<open>Reading\<close>





subsection \<open>What a round trip does to a node\<close>




subsection \<open>An example mind map\<close>

text \<open>A graph as the list of its entries, a node added at the end.\<close>

definition listGraph :: "((int \<times> NodeBase) list) GraphClass" where
  "listGraph =
     \<lparr>newGraph = [],
      addNode = (\<lambda>n g. g @ [(nodeIndex n, n)]),
      graphEntries = (\<lambda>g. g),
      newNodeBase = \<lparr>nodeIndex = - 1, nodeLocation = QPointF 0 0, nodeText = []\<rparr>\<rparr>"

definition exampleKeywords :: Keywords where
  "exampleKeywords =
     \<lparr>Header_DESIGN = ''design'', Header_APPLICATION_VERSION = ''version'',
      Graph_NODE = ''node'', Node_INDEX = ''index'', Node_TEXT = ''text'',
      Node_X = ''x'', Node_Y = ''y'', Config_APPLICATION_VERSION = ''1.0''\<rparr>"

definition exampleMindMap :: "((int \<times> NodeBase) list) MindMapData" where
  "exampleMindMap =
     \<lparr>version = ''1.0'',
      graph = [(0, \<lparr>nodeIndex = 0, nodeLocation = QPointF 1.2345 (- 2.5), nodeText = ''root''\<rparr>),
               (7, \<lparr>nodeIndex = 7, nodeLocation = QPointF (- 0.0019) 3, nodeText = []\<rparr>)]\<rparr>"


section \<open>Facts about the toolkit values\<close>

lemmas point_defs = plus_QPointF_def minus_QPointF_def QPointF_mul_def mul_QPointF_def
  QVector2D_of_def toPointF_def QVector2D_mul_def

lemmas example_defs = exampleExternals_def exampleEdge_def hiddenItem_def idleAnimation_def

lemmas edge_defs = updateLine_def updateArrowhead_def updateSingleArrowhead_def updateLabel_def
  updateDots_def setLabelVisible_def hide_def show_line_def setVisible_def start_def stop_def
  isEnoughSpaceForLabel_def isEnoughSpaceForDummyLabel_def dummyLabelTextIsShoterThanLabelText_def
  normalize_def vlength_def qDegreesToRadians_def

lemma distance_wing: "distance b (wing b d n) = \<bar>n\<bar>"
proof -
  have one: "(cos (d * pi / 180))\<^sup>2 + (sin (d * pi / 180))\<^sup>2 = 1"
    by simp
  have "(n * cos (d * pi / 180))\<^sup>2 + (n * sin (d * pi / 180))\<^sup>2
        = n\<^sup>2 * ((cos (d * pi / 180))\<^sup>2 + (sin (d * pi / 180))\<^sup>2)"
    by (simp only: power_mult_distrib distrib_left)
  also have "\<dots> = n\<^sup>2"
    by (simp only: one mult_1_right)
  finally have "sqrt ((n * cos (d * pi / 180))\<^sup>2 + (n * sin (d * pi / 180))\<^sup>2) = \<bar>n\<bar>"
    by simp
  then show ?thesis
    by (simp add: distance_def wing_def plus_QPointF_def)
qed



lemma normalize_null: "normalize (QVector2D 0 0) = QVector2D 0 0"
  by (simp add: normalize_def vlength_def)

section \<open>The example edge, computed\<close>

lemma exampleDrawn_eq:
  "exampleDrawn =
     exampleEdge
     \<lparr>m_sourceDotPos := QPointF 10 0, m_targetDotPos := QPointF 89 0,
      m_label := (m_label exampleEdge)\<lparr>isVisible := True, labelPos := QPointF (59 / 2) (- 5)\<rparr>,
      m_dummyLabel := (m_dummyLabel exampleEdge)\<lparr>labelPos := QPointF (79 / 2) (- 5)\<rparr>,
      m_line := \<lparr>line = QLineF (QPointF 10 0) (QPointF 89 0), shown = True\<rparr>,
      m_arrowheadBeginLeft :=
        \<lparr>line = QLineF (QPointF 89 0) (wing (QPointF 89 0) 150 10), shown = True\<rparr>,
      m_arrowheadBeginRight :=
        \<lparr>line = QLineF (QPointF 89 0) (wing (QPointF 89 0) (- 150) 10), shown = True\<rparr>,
      m_sourceDotSizeAnimation := \<lparr>running = True, currentTime = 0, starts = 1\<rparr>,
      m_targetDotSizeAnimation := \<lparr>running = True, currentTime = 0, starts = 1\<rparr>,
      m_previousRelativeSourcePos := QPointF 10 0,
      m_previousRelativeTargetPos := QPointF (- 11) 0\<rparr>"
  by (simp add: exampleDrawn_def edge_defs example_defs point_defs wing_def Let_def)

section \<open>Single arrowheads\<close>

lemma single_begin_left:
  "m_arrowheadBeginLeft (updateSingleArrowhead X s) =
     \<lparr>line = QLineF (if reversed (m_edgeModel s) then p1 (line (m_line s)) else p2 (line (m_line s)))
        (wing (if reversed (m_edgeModel s) then p1 (line (m_line s)) else p2 (line (m_line s)))
           ((if reversed (m_edgeModel s) then - angle X (line (m_line s)) + 180
             else - angle X (line (m_line s))) + 150)
           (arrowSize (style (m_edgeModel s)))), shown = True\<rparr>"
  by (simp add: updateSingleArrowhead_def Let_def show_line_def wing_def qDegreesToRadians_def
      point_defs mult.commute)

lemma single_begin_right:
  "m_arrowheadBeginRight (updateSingleArrowhead X s) =
     \<lparr>line = QLineF (if reversed (m_edgeModel s) then p1 (line (m_line s)) else p2 (line (m_line s)))
        (wing (if reversed (m_edgeModel s) then p1 (line (m_line s)) else p2 (line (m_line s)))
           ((if reversed (m_edgeModel s) then - angle X (line (m_line s)) + 180
             else - angle X (line (m_line s))) - 150)
           (arrowSize (style (m_edgeModel s)))), shown = True\<rparr>"
  by (simp add: updateSingleArrowhead_def Let_def show_line_def wing_def qDegreesToRadians_def
      point_defs mult.commute)

lemma single_rest:
  "m_arrowheadEndLeft (updateSingleArrowhead X s) = (m_arrowheadEndLeft s)\<lparr>shown := False\<rparr>"
  "m_arrowheadEndRight (updateSingleArrowhead X s) = (m_arrowheadEndRight s)\<lparr>shown := False\<rparr>"
  "m_line (updateSingleArrowhead X s) = m_line s"
  by (simp_all add: updateSingleArrowhead_def Let_def hide_def)

text \<open>
  C1, as the code has it. With \<open>arrowMode = Single\<close> the two begin wings are shown and
  the two end wings are hidden. The begin end is \<open>p2\<close> of the line, the end at the target
  node, and \<open>p1\<close>, the end at the source node, when the edge is reversed. Each wing runs
  from the begin end to the begin end plus a vector of length \<open>arrowSize\<close> at the angle
  of the segment plus and minus 150 degrees, where the angle of the segment is minus
  \<open>angle()\<close> of the line, and 180 degrees more when the edge is reversed.
\<close>

theorem single_arrowhead_wings:
  assumes "arrowMode (style (m_edgeModel s)) = Single"
  shows "let l = line (m_line s);
             b = (if reversed (m_edgeModel s) then p1 l else p2 l);
             a = (if reversed (m_edgeModel s) then - angle X l + 180 else - angle X l);
             n = arrowSize (style (m_edgeModel s));
             s' = updateArrowhead X s
         in m_arrowheadBeginLeft s' = \<lparr>line = QLineF b (wing b (a + 150) n), shown = True\<rparr>
          \<and> m_arrowheadBeginRight s' = \<lparr>line = QLineF b (wing b (a - 150) n), shown = True\<rparr>
          \<and> m_arrowheadEndLeft s' = (m_arrowheadEndLeft s)\<lparr>shown := False\<rparr>
          \<and> m_arrowheadEndRight s' = (m_arrowheadEndRight s)\<lparr>shown := False\<rparr>
          \<and> distance b (wing b (a + 150) n) = \<bar>n\<bar>
          \<and> distance b (wing b (a - 150) n) = \<bar>n\<bar>
          \<and> m_line s' = m_line s"
proof -
  have upd: "updateArrowhead X s = updateSingleArrowhead X s"
    using assms by (simp add: updateArrowhead_def)
  show ?thesis
    unfolding Let_def upd
    by (simp only: single_begin_left single_begin_right single_rest distance_wing simp_thms)
qed

theorem single_arrowhead_wings_witness:
  "arrowMode (style (m_edgeModel exampleDrawn)) = Single
   \<and> m_arrowheadBeginLeft (updateArrowhead exampleExternals exampleDrawn)
       = \<lparr>line = QLineF (QPointF 89 0) (wing (QPointF 89 0) 150 10), shown = True\<rparr>
   \<and> m_arrowheadBeginRight (updateArrowhead exampleExternals exampleDrawn)
       = \<lparr>line = QLineF (QPointF 89 0) (wing (QPointF 89 0) (- 150) 10), shown = True\<rparr>
   \<and> shown (m_arrowheadEndLeft (updateArrowhead exampleExternals exampleDrawn)) = False
   \<and> shown (m_arrowheadEndRight (updateArrowhead exampleExternals exampleDrawn)) = False
   \<and> distance (QPointF 89 0) (wing (QPointF 89 0) 150 10) = 10"
proof -
  have single: "arrowMode (style (m_edgeModel exampleDrawn)) = Single"
    by (simp add: exampleDrawn_eq exampleEdge_def)
  show ?thesis
    using single single_arrowhead_wings [OF single, of exampleExternals]
    by (simp add: Let_def exampleDrawn_eq example_defs)
qed

text \<open>
  C1 as the specification words it fails on the example: the edge is not reversed, the
  end of the segment nearer the source node is \<open>(10, 0)\<close>, and the wings start at
  \<open>(89, 0)\<close>, the end at the target node.
\<close>

theorem single_arrowhead_begin_counterexample:
  "reversed (m_edgeModel exampleDrawn) = False
   \<and> arrowMode (style (m_edgeModel exampleDrawn)) = Single
   \<and> line (m_line exampleDrawn) = QLineF (QPointF 10 0) (QPointF 89 0)
   \<and> claimedSingleBegin exampleDrawn = QPointF 10 0
   \<and> shown (m_arrowheadBeginLeft exampleDrawn) = True
   \<and> p1 (line (m_arrowheadBeginLeft exampleDrawn)) = QPointF 89 0
   \<and> p1 (line (m_arrowheadBeginLeft exampleDrawn)) \<noteq> claimedSingleBegin exampleDrawn"
  by (simp add: exampleDrawn_eq example_defs claimedSingleBegin_def distance_def Let_def)

section \<open>Label visibility\<close>

lemma crampedDrawn_eq:
  "crampedDrawn =
     crampedEdge
     \<lparr>m_sourceDotPos := QPointF 10 0, m_targetDotPos := QPointF 49 0,
      m_label := (m_label crampedEdge)\<lparr>labelPos := QPointF (19 / 2) (- 5)\<rparr>,
      m_dummyLabel := (m_dummyLabel crampedEdge)\<lparr>isVisible := True, labelPos := QPointF (39 / 2) (- 5)\<rparr>,
      m_line := \<lparr>line = QLineF (QPointF 10 0) (QPointF 49 0), shown = True\<rparr>,
      m_arrowheadBeginLeft :=
        \<lparr>line = QLineF (QPointF 49 0) (wing (QPointF 49 0) 150 10), shown = True\<rparr>,
      m_arrowheadBeginRight :=
        \<lparr>line = QLineF (QPointF 49 0) (wing (QPointF 49 0) (- 150) 10), shown = True\<rparr>,
      m_sourceDotSizeAnimation := \<lparr>running = True, currentTime = 0, starts = 1\<rparr>,
      m_targetDotSizeAnimation := \<lparr>running = True, currentTime = 0, starts = 1\<rparr>,
      m_previousRelativeSourcePos := QPointF 10 0,
      m_previousRelativeTargetPos := QPointF (- 11) 0\<rparr>"
  by (simp add: crampedDrawn_def crampedEdge_def edge_defs example_defs point_defs wing_def Let_def)

lemmas label_defs = setLabelVisible_def setVisible_def labelVisibilityState_def bothVisible_def
  isEnoughSpaceForLabel_def isEnoughSpaceForDummyLabel_def dummyLabelTextIsShoterThanLabelText_def

lemma example_fits:
  "isEnoughSpaceForLabel exampleExternals exampleDrawn"
  "isEnoughSpaceForDummyLabel exampleExternals exampleDrawn"
  "dummyLabelTextIsShoterThanLabelText exampleDrawn"
  "labelText (m_label exampleDrawn) = ''hello''"
  "hasFocus (m_label exampleDrawn) = False"
  "m_enableLabel exampleDrawn"
  by (simp_all add: exampleDrawn_eq example_defs label_defs)

lemma cramped_fits:
  "\<not> isEnoughSpaceForLabel exampleExternals crampedDrawn"
  "isEnoughSpaceForDummyLabel exampleExternals crampedDrawn"
  "dummyLabelTextIsShoterThanLabelText crampedDrawn"
  "labelText (m_label crampedDrawn) = ''hello''"
  "hasFocus (m_label crampedDrawn) = False"
  "m_enableLabel crampedDrawn"
  by (simp_all add: crampedDrawn_eq crampedEdge_def example_defs label_defs)

text \<open>
  C3. When the labels are enabled, \<open>AvailableSpaceChanged\<close> leaves the label alone visible
  when the label is in a scene, its scene bounding box meets the bounds of neither node
  and its text is not empty; otherwise the dummy label alone when the dummy label is in a
  scene, its box meets the bounds of neither node and its text is strictly shorter than
  the label's; otherwise neither. A label that is not in a scene has no scene bounding
  box.
\<close>

theorem available_space_changed_state:
  assumes "m_enableLabel s"
  shows "labelVisibilityState (setLabelVisible X visible AvailableSpaceChanged s) =
           Some (if (scene (m_label s)
                     \<and> \<not> intersects X (sceneBoundingRect X (m_label s))
                                       (nodeSceneBoundingRect (m_sourceNode s))
                     \<and> \<not> intersects X (sceneBoundingRect X (m_label s))
                                       (nodeSceneBoundingRect (m_targetNode s)))
                    \<and> labelText (m_label s) \<noteq> []
                 then StateVisible
                 else if (scene (m_dummyLabel s)
                          \<and> \<not> intersects X (sceneBoundingRect X (m_dummyLabel s))
                                            (nodeSceneBoundingRect (m_sourceNode s))
                          \<and> \<not> intersects X (sceneBoundingRect X (m_dummyLabel s))
                                            (nodeSceneBoundingRect (m_targetNode s)))
                         \<and> length (labelText (m_dummyLabel s)) < length (labelText (m_label s))
                 then StateDummyVisible
                 else StateHidden)"
  using assms by (simp add: label_defs Let_def)

theorem available_space_changed_state_witness:
  "m_enableLabel exampleDrawn \<and> m_enableLabel crampedDrawn \<and> m_enableLabel exampleEdge
   \<and> labelVisibilityState (setLabelVisible exampleExternals False AvailableSpaceChanged exampleDrawn)
       = Some StateVisible
   \<and> labelVisibilityState (setLabelVisible exampleExternals True AvailableSpaceChanged crampedDrawn)
       = Some StateDummyVisible
   \<and> labelVisibilityState (setLabelVisible exampleExternals True AvailableSpaceChanged
         (exampleEdge\<lparr>m_label := (m_label exampleEdge)\<lparr>labelText := []\<rparr>\<rparr>))
       = Some StateHidden"
proof -
  have e1: "m_enableLabel exampleDrawn" and e2: "m_enableLabel crampedDrawn"
    and e3: "m_enableLabel (exampleEdge\<lparr>m_label := (m_label exampleEdge)\<lparr>labelText := []\<rparr>\<rparr>)"
    by (simp_all add: exampleDrawn_eq crampedDrawn_eq crampedEdge_def exampleEdge_def)
  show ?thesis
    using e1 e2 e3
      available_space_changed_state [OF e1, of exampleExternals False]
      available_space_changed_state [OF e2, of exampleExternals True]
      available_space_changed_state [OF e3, of exampleExternals True]
    by (simp add: exampleDrawn_eq crampedDrawn_eq crampedEdge_def example_defs)
qed

text \<open>
  C4, as the code has it. A timeout (\<open>visible\<close> false) acts only when the text is empty or
  there is not enough space for the label, and the label does not hold the focus: then the
  label is hidden and the dummy label is shown exactly when it is eligible (enough space
  and a strictly shorter text). In every other case, and when \<open>visible\<close> is true, both
  labels keep the visibility they have.
\<close>

theorem timeout_transition:
  assumes "m_enableLabel s"
  shows "setLabelVisible X False Timeout s =
           (if (labelText (m_label s) = [] \<or> \<not> isEnoughSpaceForLabel X s) \<and> \<not> hasFocus (m_label s)
            then s\<lparr>m_label := (m_label s)\<lparr>isVisible := False\<rparr>,
                   m_dummyLabel := (m_dummyLabel s)\<lparr>isVisible :=
                     (isEnoughSpaceForDummyLabel X s \<and> dummyLabelTextIsShoterThanLabelText s)\<rparr>\<rparr>
            else s)
         \<and> labelVisibilityState (setLabelVisible X False Timeout s) =
           (if (labelText (m_label s) = [] \<or> \<not> isEnoughSpaceForLabel X s) \<and> \<not> hasFocus (m_label s)
            then Some (if isEnoughSpaceForDummyLabel X s \<and> dummyLabelTextIsShoterThanLabelText s
                       then StateDummyVisible else StateHidden)
            else labelVisibilityState s)
         \<and> setLabelVisible X True Timeout s = s"
  using assms by (auto simp add: setLabelVisible_def setVisible_def labelVisibilityState_def)

theorem timeout_transition_witness:
  "m_enableLabel crampedHovered \<and> m_enableLabel exampleDrawn
   \<and> labelVisibilityState crampedHovered = Some StateVisible
   \<and> labelVisibilityState (setLabelVisible exampleExternals False Timeout crampedHovered)
       = Some StateDummyVisible
   \<and> setLabelVisible exampleExternals False Timeout exampleDrawn = exampleDrawn
   \<and> setLabelVisible exampleExternals True Timeout exampleDrawn = exampleDrawn"
proof -
  have e1: "m_enableLabel crampedHovered" and e2: "m_enableLabel exampleDrawn"
    by (simp_all add: crampedHovered_def setLabelVisible_def cramped_fits example_fits)
  have c: "\<not> isEnoughSpaceForLabel exampleExternals crampedHovered"
    "isEnoughSpaceForDummyLabel exampleExternals crampedHovered"
    "dummyLabelTextIsShoterThanLabelText crampedHovered"
    "hasFocus (m_label crampedHovered) = False"
    "labelVisibilityState crampedHovered = Some StateVisible"
    by (simp_all add: crampedHovered_def crampedDrawn_eq crampedEdge_def example_defs label_defs)
  show ?thesis
    using e1 e2
      timeout_transition [OF e1, of exampleExternals]
      timeout_transition [OF e2, of exampleExternals]
    by (simp add: c example_fits) (simp add: labelVisibilityState_def)
qed

text \<open>
  C4 as the specification words it fails on the example edge: the text is not empty and
  the label fits, so the stated condition for hiding does not hold, and the dummy label is
  eligible; the timeout leaves the label visible and does not show the dummy label.
\<close>

theorem timeout_counterexample:
  "isEnoughSpaceForLabel exampleExternals exampleDrawn
   \<and> labelText (m_label exampleDrawn) = ''hello''
   \<and> isEnoughSpaceForDummyLabel exampleExternals exampleDrawn
   \<and> dummyLabelTextIsShoterThanLabelText exampleDrawn
   \<and> labelVisibilityState exampleDrawn = Some StateVisible
   \<and> claimedTimeout exampleExternals exampleDrawn = StateDummyVisible
   \<and> labelVisibilityState (setLabelVisible exampleExternals False Timeout exampleDrawn)
       = Some StateVisible
   \<and> labelVisibilityState (setLabelVisible exampleExternals False Timeout exampleDrawn)
       \<noteq> Some (claimedTimeout exampleExternals exampleDrawn)"
proof -
  have same: "setLabelVisible exampleExternals False Timeout exampleDrawn = exampleDrawn"
    by (simp add: setLabelVisible_def example_fits)
  have vis: "labelVisibilityState exampleDrawn = Some StateVisible"
    by (simp add: labelVisibilityState_def exampleDrawn_eq exampleEdge_def)
  have claimed: "claimedTimeout exampleExternals exampleDrawn = StateDummyVisible"
    by (simp add: claimedTimeout_def example_fits)
  show ?thesis
    by (simp add: same vis claimed example_fits)
qed






section \<open>The line between the two nodes\<close>






lemma frame_setLabelVisible:
  "m_line (setLabelVisible X v r s) = m_line s"
  "m_edgeModel (setLabelVisible X v r s) = m_edgeModel s"
  "m_sourceNode (setLabelVisible X v r s) = m_sourceNode s"
  "m_targetNode (setLabelVisible X v r s) = m_targetNode s"
  "m_arrowheadBeginLeft (setLabelVisible X v r s) = m_arrowheadBeginLeft s"
  "m_arrowheadBeginRight (setLabelVisible X v r s) = m_arrowheadBeginRight s"
  "m_arrowheadEndLeft (setLabelVisible X v r s) = m_arrowheadEndLeft s"
  "m_arrowheadEndRight (setLabelVisible X v r s) = m_arrowheadEndRight s"
  by (cases r; simp add: setLabelVisible_def Let_def)+

lemma frame_updateLabel:
  "m_line (updateLabel X lur s) = m_line s"
  "m_edgeModel (updateLabel X lur s) = m_edgeModel s"
  "m_sourceNode (updateLabel X lur s) = m_sourceNode s"
  "m_targetNode (updateLabel X lur s) = m_targetNode s"
  "m_arrowheadBeginLeft (updateLabel X lur s) = m_arrowheadBeginLeft s"
  "m_arrowheadBeginRight (updateLabel X lur s) = m_arrowheadBeginRight s"
  "m_arrowheadEndLeft (updateLabel X lur s) = m_arrowheadEndLeft s"
  "m_arrowheadEndRight (updateLabel X lur s) = m_arrowheadEndRight s"
  by (simp_all add: updateLabel_def Let_def frame_setLabelVisible)

lemma frame_updateDots:
  "m_line (updateDots s) = m_line s"
  "m_edgeModel (updateDots s) = m_edgeModel s"
  "m_sourceNode (updateDots s) = m_sourceNode s"
  "m_targetNode (updateDots s) = m_targetNode s"
  "m_arrowheadBeginLeft (updateDots s) = m_arrowheadBeginLeft s"
  "m_arrowheadBeginRight (updateDots s) = m_arrowheadBeginRight s"
  "m_arrowheadEndLeft (updateDots s) = m_arrowheadEndLeft s"
  "m_arrowheadEndRight (updateDots s) = m_arrowheadEndRight s"
  by (simp_all add: updateDots_def Let_def)

lemma frame_updateArrowhead:
  "m_line (updateArrowhead X s) = m_line s"
  "m_edgeModel (updateArrowhead X s) = m_edgeModel s"
  "m_sourceNode (updateArrowhead X s) = m_sourceNode s"
  "m_targetNode (updateArrowhead X s) = m_targetNode s"
  by (cases "arrowMode (style (m_edgeModel s))";
      simp add: updateArrowhead_def updateSingleArrowhead_def updateDoubleArrowhead_def
        updateHiddenArrowhead_def Let_def)+

text \<open>The line that \<open>updateLine\<close> sets, in terms of the anchors and their directions.\<close>

lemma updateLine_line:
  "m_line (updateLine X s) =
     (m_line s)\<lparr>line := QLineF
        (sourceAnchor X s
         + (if isCorner (fst (getNearestEdgePoints X (m_sourceNode s) (m_targetNode s)))
            then mul_QPointF 0.3 (toPointF (QVector2D_mul (sourceDirection X s)
                                              (cornerRadius (m_sourceNode s))))
            else QPointF 0 0))
        (targetAnchor X s
         + (if isCorner (snd (getNearestEdgePoints X (m_sourceNode s) (m_targetNode s)))
            then mul_QPointF 0.3 (toPointF (QVector2D_mul (targetDirection X s)
                                              (cornerRadius (m_targetNode s))))
            else QPointF 0 0)
         - QPointF_mul (toPointF (QVector2D_mul (targetDirection X s)
                                    (edgeWidth (style (m_edgeModel s))))) 0.5)\<rparr>"
  by (simp add: updateLine_def Let_def frame_updateArrowhead frame_updateLabel frame_updateDots
      sourceAnchor_def targetAnchor_def sourceDirection_def targetDirection_def)

lemma frame_updateLine:
  "m_edgeModel (updateLine X s) = m_edgeModel s"
  "m_sourceNode (updateLine X s) = m_sourceNode s"
  "m_targetNode (updateLine X s) = m_targetNode s"
  by (simp_all add: updateLine_def Let_def frame_updateArrowhead frame_updateLabel frame_updateDots)








section \<open>Connection dots\<close>











section \<open>Recomputing the geometry twice\<close>

text \<open>
  What \<open>updateArrowhead\<close> makes of the four arrowhead items depends on the line, the edge
  model and the items themselves, and doing it again changes nothing.
\<close>

lemma updateArrowhead_again:
  assumes "m_line s' = m_line s" and "m_edgeModel s' = m_edgeModel s"
    and "m_arrowheadBeginLeft s' = m_arrowheadBeginLeft (updateArrowhead X s)"
    and "m_arrowheadBeginRight s' = m_arrowheadBeginRight (updateArrowhead X s)"
    and "m_arrowheadEndLeft s' = m_arrowheadEndLeft (updateArrowhead X s)"
    and "m_arrowheadEndRight s' = m_arrowheadEndRight (updateArrowhead X s)"
  shows "m_arrowheadBeginLeft (updateArrowhead X s') = m_arrowheadBeginLeft (updateArrowhead X s)
       \<and> m_arrowheadBeginRight (updateArrowhead X s') = m_arrowheadBeginRight (updateArrowhead X s)
       \<and> m_arrowheadEndLeft (updateArrowhead X s') = m_arrowheadEndLeft (updateArrowhead X s)
       \<and> m_arrowheadEndRight (updateArrowhead X s') = m_arrowheadEndRight (updateArrowhead X s)"
proof (cases "arrowMode (style (m_edgeModel s))")
  case Single
  with assms show ?thesis
    by (simp add: updateArrowhead_def updateSingleArrowhead_def Let_def hide_def)
next
  case Double
  with assms show ?thesis
    by (simp add: updateArrowhead_def updateDoubleArrowhead_def Let_def)
next
  case Hidden
  with assms show ?thesis
    by (simp add: updateArrowhead_def updateHiddenArrowhead_def hide_def)
qed

text \<open>
  The state that \<open>updateLine\<close> hands to \<open>updateArrowhead\<close>: the line set, the dots and the
  label brought up to date.
\<close>

lemma updateLine_unfold:
  "updateLine X s =
     updateArrowhead X (updateLabel X EdgeGeometryChanged
       (updateDots (s\<lparr>m_line := m_line (updateLine X s)\<rparr>)))"
  by (simp add: updateLine_def Let_def frame_updateArrowhead frame_updateLabel frame_updateDots)

lemma updateLine_line_again: "m_line (updateLine X (updateLine X s)) = m_line (updateLine X s)"
proof -
  have a: "sourceAnchor X (updateLine X s) = sourceAnchor X s"
    "targetAnchor X (updateLine X s) = targetAnchor X s"
    by (simp_all add: sourceAnchor_def targetAnchor_def frame_updateLine)
  have d: "sourceDirection X (updateLine X s) = sourceDirection X s"
    "targetDirection X (updateLine X s) = targetDirection X s"
    by (simp_all add: sourceDirection_def targetDirection_def a frame_updateLine)
  show ?thesis
    by (simp add: updateLine_line [of X "updateLine X s"] a d frame_updateLine)
       (simp add: updateLine_line)
qed

text \<open>
  C8. Running \<open>updateLine\<close> a second time, with nothing changed in between, leaves the
  line and the four arrowhead items (their lines and whether they are shown) as the first
  run left them.
\<close>

theorem updateLine_twice:
  "m_line (updateLine X (updateLine X s)) = m_line (updateLine X s)
   \<and> m_arrowheadBeginLeft (updateLine X (updateLine X s)) = m_arrowheadBeginLeft (updateLine X s)
   \<and> m_arrowheadBeginRight (updateLine X (updateLine X s)) = m_arrowheadBeginRight (updateLine X s)
   \<and> m_arrowheadEndLeft (updateLine X (updateLine X s)) = m_arrowheadEndLeft (updateLine X s)
   \<and> m_arrowheadEndRight (updateLine X (updateLine X s)) = m_arrowheadEndRight (updateLine X s)"
proof -
  define m where
    "m = updateLabel X EdgeGeometryChanged (updateDots (s\<lparr>m_line := m_line (updateLine X s)\<rparr>))"
  define m' where
    "m' = updateLabel X EdgeGeometryChanged
            (updateDots ((updateLine X s)\<lparr>m_line := m_line (updateLine X (updateLine X s))\<rparr>))"
  have first: "updateLine X s = updateArrowhead X m"
    unfolding m_def by (rule updateLine_unfold)
  have second: "updateLine X (updateLine X s) = updateArrowhead X m'"
    unfolding m'_def by (rule updateLine_unfold)
  have m: "m_line m = m_line (updateLine X s)" "m_edgeModel m = m_edgeModel s"
    unfolding m_def by (simp_all add: frame_updateLabel frame_updateDots)
  have m': "m_line m' = m_line (updateLine X s)" "m_edgeModel m' = m_edgeModel s"
    "m_arrowheadBeginLeft m' = m_arrowheadBeginLeft (updateLine X s)"
    "m_arrowheadBeginRight m' = m_arrowheadBeginRight (updateLine X s)"
    "m_arrowheadEndLeft m' = m_arrowheadEndLeft (updateLine X s)"
    "m_arrowheadEndRight m' = m_arrowheadEndRight (updateLine X s)"
    unfolding m'_def
    by (simp_all add: frame_updateLabel frame_updateDots frame_updateLine updateLine_line_again)
  have "m_arrowheadBeginLeft (updateArrowhead X m') = m_arrowheadBeginLeft (updateArrowhead X m)
       \<and> m_arrowheadBeginRight (updateArrowhead X m') = m_arrowheadBeginRight (updateArrowhead X m)
       \<and> m_arrowheadEndLeft (updateArrowhead X m') = m_arrowheadEndLeft (updateArrowhead X m)
       \<and> m_arrowheadEndRight (updateArrowhead X m') = m_arrowheadEndRight (updateArrowhead X m)"
  proof (rule updateArrowhead_again)
    show "m_line m' = m_line m" by (simp only: m m')
    show "m_edgeModel m' = m_edgeModel m" by (simp only: m m')
    show "m_arrowheadBeginLeft m' = m_arrowheadBeginLeft (updateArrowhead X m)"
      by (simp only: m' first)
    show "m_arrowheadBeginRight m' = m_arrowheadBeginRight (updateArrowhead X m)"
      by (simp only: m' first)
    show "m_arrowheadEndLeft m' = m_arrowheadEndLeft (updateArrowhead X m)"
      by (simp only: m' first)
    show "m_arrowheadEndRight m' = m_arrowheadEndRight (updateArrowhead X m)"
      by (simp only: m' first)
  qed
  then show ?thesis
    unfolding first [symmetric] second [symmetric]
    by (simp only: updateLine_line_again simp_thms)
qed

section \<open>The serializer\<close>

subsection \<open>Integers written and read\<close>









subsection \<open>Attributes\<close>


subsection \<open>Truncation\<close>




subsection \<open>One node written and read\<close>



subsection \<open>All nodes written and read\<close>




lemma example_written:
  "toXml exampleKeywords listGraph exampleMindMap =
     Some (QDomDocument (Some (QDomElement ''design'' [(''version'', ''1.0'')]
       [QDomElement ''node'' [(''index'', ''0''), (''x'', ''1234''), (''y'', ''-2500'')]
          [QDomElement ''text'' [] [QDomText ''root'']],
        QDomElement ''node'' [(''index'', ''7''), (''x'', ''-1''), (''y'', ''3000'')]
          [QDomElement ''text'' [] [QDomText []]]])))"
  by code_simp



end
